theory Spec2Isabelle
  imports Complex_Main
begin

section \<open>JavaScript values\<close>

text \<open>
  A JavaScript number is modelled as an exact real extended with the two infinities and
  NaN. The binary rounding of doubles and the sign of zero are not modelled: every
  arithmetic result is the exact one.
\<close>

datatype jsnum = Fin real | PosInf | NegInf | NaN

definition jinf :: "bool \<Rightarrow> jsnum" where
  "jinf pos = (if pos then PosInf else NegInf)"

fun isNaN :: "jsnum \<Rightarrow> bool" where
  "isNaN NaN = True"
| "isNaN _ = False"

fun isFin :: "jsnum \<Rightarrow> bool" where
  "isFin (Fin _) = True"
| "isFin _ = False"

fun jneg :: "jsnum \<Rightarrow> jsnum" where
  "jneg (Fin a) = Fin (- a)"
| "jneg PosInf = NegInf"
| "jneg NegInf = PosInf"
| "jneg NaN = NaN"

fun jadd :: "jsnum \<Rightarrow> jsnum \<Rightarrow> jsnum" where
  "jadd (Fin a) (Fin b) = Fin (a + b)"
| "jadd NaN _ = NaN"
| "jadd _ NaN = NaN"
| "jadd PosInf NegInf = NaN"
| "jadd NegInf PosInf = NaN"
| "jadd PosInf _ = PosInf"
| "jadd _ PosInf = PosInf"
| "jadd NegInf _ = NegInf"
| "jadd _ NegInf = NegInf"

definition jsub :: "jsnum \<Rightarrow> jsnum \<Rightarrow> jsnum" where
  "jsub a b = jadd a (jneg b)"

fun jmul :: "jsnum \<Rightarrow> jsnum \<Rightarrow> jsnum" where
  "jmul (Fin a) (Fin b) = Fin (a * b)"
| "jmul NaN _ = NaN"
| "jmul _ NaN = NaN"
| "jmul (Fin a) PosInf = (if a = 0 then NaN else jinf (0 < a))"
| "jmul (Fin a) NegInf = (if a = 0 then NaN else jinf (a < 0))"
| "jmul PosInf (Fin b) = (if b = 0 then NaN else jinf (0 < b))"
| "jmul NegInf (Fin b) = (if b = 0 then NaN else jinf (b < 0))"
| "jmul PosInf PosInf = PosInf"
| "jmul NegInf NegInf = PosInf"
| "jmul PosInf NegInf = NegInf"
| "jmul NegInf PosInf = NegInf"

text \<open>Division: \<open>0/0\<close> is NaN and \<open>x/0\<close> is an infinity, as in IEEE arithmetic.\<close>

fun jdiv :: "jsnum \<Rightarrow> jsnum \<Rightarrow> jsnum" where
  "jdiv (Fin a) (Fin b) =
     (if b \<noteq> 0 then Fin (a / b) else if a = 0 then NaN else jinf (0 < a))"
| "jdiv NaN _ = NaN"
| "jdiv _ NaN = NaN"
| "jdiv (Fin a) PosInf = Fin 0"
| "jdiv (Fin a) NegInf = Fin 0"
| "jdiv PosInf (Fin b) = jinf (0 \<le> b)"
| "jdiv NegInf (Fin b) = jinf (b < 0)"
| "jdiv PosInf _ = NaN"
| "jdiv NegInf _ = NaN"

text \<open>\<open>Math.log2\<close>, \<open>Math.round\<close> (half up), \<open>Math.floor\<close>, \<open>Math.min\<close>, \<open>Math.max\<close>.\<close>

fun jlog2 :: "jsnum \<Rightarrow> jsnum" where
  "jlog2 (Fin x) = (if 0 < x then Fin (log 2 x) else if x = 0 then NegInf else NaN)"
| "jlog2 PosInf = PosInf"
| "jlog2 NegInf = NaN"
| "jlog2 NaN = NaN"

fun jround :: "jsnum \<Rightarrow> jsnum" where
  "jround (Fin x) = Fin (of_int \<lfloor>x + 1 / 2\<rfloor>)"
| "jround n = n"


fun jmin :: "jsnum \<Rightarrow> jsnum \<Rightarrow> jsnum" where
  "jmin (Fin a) (Fin b) = Fin (min a b)"
| "jmin NaN _ = NaN"
| "jmin _ NaN = NaN"
| "jmin NegInf _ = NegInf"
| "jmin _ NegInf = NegInf"
| "jmin PosInf b = b"
| "jmin a PosInf = a"

fun jmax :: "jsnum \<Rightarrow> jsnum \<Rightarrow> jsnum" where
  "jmax (Fin a) (Fin b) = Fin (max a b)"
| "jmax NaN _ = NaN"
| "jmax _ NaN = NaN"
| "jmax PosInf _ = PosInf"
| "jmax _ PosInf = PosInf"
| "jmax NegInf b = b"
| "jmax a NegInf = a"

text \<open>The comparisons \<open><\<close> and \<open>>\<close> on numbers: false as soon as one side is NaN.\<close>

fun jlt :: "jsnum \<Rightarrow> jsnum \<Rightarrow> bool" where
  "jlt (Fin a) (Fin b) = (a < b)"
| "jlt NaN _ = False"
| "jlt _ NaN = False"
| "jlt _ NegInf = False"
| "jlt PosInf _ = False"
| "jlt NegInf _ = True"
| "jlt _ PosInf = True"

definition jgt :: "jsnum \<Rightarrow> jsnum \<Rightarrow> bool" where
  "jgt a b = jlt b a"

text \<open>
  The values a field can hold. Arrays are lists, objects are property lists in
  insertion order.
\<close>

datatype jsval =
    JUndefined
  | JNull
  | JBool bool
  | JNum jsnum
  | JStr string
  | JArr "jsval list"
  | JObj "(string \<times> jsval) list"

fun truthyNum :: "jsnum \<Rightarrow> bool" where
  "truthyNum (Fin x) = (x \<noteq> 0)"
| "truthyNum NaN = False"
| "truthyNum _ = True"

fun truthy :: "jsval \<Rightarrow> bool" where
  "truthy JUndefined = False"
| "truthy JNull = False"
| "truthy (JBool b) = b"
| "truthy (JNum n) = truthyNum n"
| "truthy (JStr s) = (s \<noteq> [])"
| "truthy (JArr _) = True"
| "truthy (JObj _) = True"

fun typeof :: "jsval \<Rightarrow> string" where
  "typeof JUndefined = ''undefined''"
| "typeof JNull = ''object''"
| "typeof (JBool _) = ''boolean''"
| "typeof (JNum _) = ''number''"
| "typeof (JStr _) = ''string''"
| "typeof (JArr _) = ''object''"
| "typeof (JObj _) = ''object''"

text \<open>
  \<open>Number(v)\<close>. The conversion of a string (StringToNumber) and of an array or object
  (ToPrimitive, then StringToNumber) is the engine's; it is the parameter \<open>conv\<close>.
\<close>

fun toNumber :: "(jsval \<Rightarrow> jsnum) \<Rightarrow> jsval \<Rightarrow> jsnum" where
  "toNumber conv JUndefined = NaN"
| "toNumber conv JNull = Fin 0"
| "toNumber conv (JBool b) = Fin (if b then 1 else 0)"
| "toNumber conv (JNum n) = n"
| "toNumber conv v = conv v"

section \<open>Fingerprint validation (listeningStats.js)\<close>

text \<open>The fingerprint object as \<open>validateFingerprintData\<close> receives it: any value on each axis.\<close>

record raw_fingerprint =
  r_consistency :: jsval
  r_discovery :: jsval
  r_variety :: jsval
  r_replayRate :: jsval
  r_exploration :: jsval

record fingerprint =
  consistency :: jsnum
  discovery :: jsnum
  variety :: jsnum
  replayRate :: jsnum
  exploration :: jsnum

text \<open>\<open>Number(x) || 50\<close>: the number when it is truthy, else 50.\<close>

definition numberOr50 :: "(jsval \<Rightarrow> jsnum) \<Rightarrow> jsval \<Rightarrow> jsnum" where
  "numberOr50 conv x = (let n = toNumber conv x in if truthyNum n then n else Fin 50)"

definition fingerprintValues :: "fingerprint \<Rightarrow> jsnum list" where
  "fingerprintValues v =
     [consistency v, discovery v, variety v, replayRate v, exploration v]"

text \<open>
  \<open>validateFingerprintData\<close>. The argument is \<open>None\<close> when the caller passes a falsy value
  or a value that is not an object; the result \<open>None\<close> is the \<open>null\<close> the source returns.
\<close>

definition validateFingerprintData ::
  "(jsval \<Rightarrow> jsnum) \<Rightarrow> raw_fingerprint option \<Rightarrow> fingerprint option" where
  "validateFingerprintData conv fp =
     (case fp of
        None \<Rightarrow> None
      | Some f \<Rightarrow>
          let validated = \<lparr> consistency = numberOr50 conv (r_consistency f),
                             discovery = numberOr50 conv (r_discovery f),
                             variety = numberOr50 conv (r_variety f),
                             replayRate = numberOr50 conv (r_replayRate f),
                             exploration = numberOr50 conv (r_exploration f) \<rparr>;
              hasInvalid = list_ex isNaN (fingerprintValues validated)
          in if hasInvalid then None else Some validated)"

section \<open>Listening fingerprint (listeningStats.js)\<close>

datatype js_error = RangeError | TypeError | Error string


text \<open>
  A canonical listen as the fingerprint functions read it; an absent (\<open>undefined\<close>)
  field is \<open>None\<close>.
\<close>

record listen =
  timestamp :: "jsnum option"
  listened_at :: "jsnum option"
  artistName :: "string option"
  trackName :: "string option"
  genres :: "string list option"
  normalizedGenre :: "string option"
  genre :: "string option"


definition truthyS :: "string option \<Rightarrow> bool" where
  "truthyS s = (case s of None \<Rightarrow> False | Some x \<Rightarrow> x \<noteq> [])"







text \<open>
  \<open>Math.max(...xs)\<close> and \<open>Math.min(...xs)\<close>. The language puts no bound on the number of
  arguments of a call, and neither does this model; the bound of an engine, which raises
  RangeError on a spread of some hundred thousand elements, is outside it. The same holds
  for \<open>allListens.push(...listens)\<close> below.
\<close>

definition maxOf :: "jsnum list \<Rightarrow> jsnum" where
  "maxOf xs = fold jmax xs NegInf"

definition minOf :: "jsnum list \<Rightarrow> jsnum" where
  "minOf xs = fold jmin xs PosInf"




text \<open>A template literal prints an absent field as \<open>undefined\<close>.\<close>

definition tmpl :: "string option \<Rightarrow> string" where
  "tmpl s = (case s of None \<Rightarrow> ''undefined'' | Some x \<Rightarrow> x)"

definition trackKey :: "'a listen_scheme \<Rightarrow> string" where
  "trackKey l = tmpl (artistName l) @ ''-'' @ tmpl (trackName l)"

text \<open>\<open>listen.genres?.[0] || listen.normalizedGenre || listen.genre || 'Unknown'\<close>\<close>

definition genreOf :: "'a listen_scheme \<Rightarrow> string" where
  "genreOf l =
     (let g0 = (case genres l of None \<Rightarrow> None | Some gs \<Rightarrow> (case gs of [] \<Rightarrow> None | g # _ \<Rightarrow> Some g))
      in if truthyS g0 then tmpl g0
         else if truthyS (normalizedGenre l) then tmpl (normalizedGenre l)
         else if truthyS (genre l) then tmpl (genre l)
         else ''Unknown'')"

text \<open>\<open>new Set(xs).size\<close>\<close>

definition setSize :: "'a list \<Rightarrow> nat" where
  "setSize xs = length (remdups xs)"

definition uniqueArtistsOf :: "'a listen_scheme list \<Rightarrow> nat" where
  "uniqueArtistsOf listens = setSize (filter truthyS (map artistName listens))"

definition uniqueTracksOf :: "'a listen_scheme list \<Rightarrow> nat" where
  "uniqueTracksOf listens = setSize (filter (\<lambda>k. k \<noteq> ''-'') (map trackKey listens))"

text \<open>
  \<open>genreCounts\<close> is a plain object and its keys are genre names, which are free text. For
  a name that the object inherits from \<open>Object.prototype\<close>, \<open>genreCounts[genre] || 0\<close>
  reads the inherited value: a function, so that the sum is a string and not a number
  (\<open>None\<close>), or, for \<open>__proto__\<close>, the prototype, and the assignment of a string to
  \<open>__proto__\<close> does nothing. The keys of the other two dictionaries are dates and keys
  with a hyphen, which are never inherited names; they use \<open>bump\<close>. The keys are kept
  in the order of their insertion; the engine lists index-like keys first, which changes
  neither the number of keys nor, in exact arithmetic, the sum of the entropy terms.
\<close>

definition inheritedFunctionNames :: "string list" where
  "inheritedFunctionNames =
     [''constructor'', ''toString'', ''toLocaleString'', ''valueOf'', ''hasOwnProperty'',
      ''isPrototypeOf'', ''propertyIsEnumerable'', ''__defineGetter__'', ''__defineSetter__'',
      ''__lookupGetter__'', ''__lookupSetter__'']"

fun bumpObj :: "string \<Rightarrow> (string \<times> nat option) list \<Rightarrow> (string \<times> nat option) list" where
  "bumpObj k [] =
     (if k = ''__proto__'' then []
      else if k \<in> set inheritedFunctionNames then [(k, None)]
      else [(k, Some 1)])"
| "bumpObj k ((k', c) # kcs) =
     (if k = k' then (k', map_option (\<lambda>n. n + 1) c) # kcs else (k', c) # bumpObj k kcs)"

definition genreCountsOf :: "'a listen_scheme list \<Rightarrow> (string \<times> nat option) list" where
  "genreCountsOf listens =
     fold (\<lambda>l genreCounts. let g = genreOf l
                             in if g \<noteq> ''Unknown'' then bumpObj g genreCounts else genreCounts)
          listens []"

text \<open>
  The loop \<open>entropy -= p * Math.log2(p)\<close> over the values of \<open>genreCounts\<close>; a value that
  is a string divides to NaN.
\<close>

definition entropyOf :: "nat option list \<Rightarrow> nat \<Rightarrow> jsnum" where
  "entropyOf counts totalListens =
     fold (\<lambda>count entropy.
             let p = jdiv (case count of Some c \<Rightarrow> Fin (real c) | None \<Rightarrow> NaN)
                          (Fin (real totalListens))
             in jsub entropy (jmul p (jlog2 p)))
          counts (Fin 0)"

definition calculateVariety :: "'a listen_scheme list \<Rightarrow> jsnum" where
  "calculateVariety listens =
     (let uniqueArtists = uniqueArtistsOf listens;
          totalListens = length listens;
          uniqueTracks = uniqueTracksOf listens;
          genreCounts = genreCountsOf listens;
          uniqueGenres = length genreCounts
      in if uniqueGenres = 0 then
           let basicVariety =
                 jround (jdiv
                   (jadd (jmul (jmul (jdiv (Fin (real uniqueArtists)) (Fin (real totalListens)))
                                     (Fin 100)) (Fin 5))
                         (jmul (jmul (jdiv (Fin (real uniqueTracks)) (Fin (real totalListens)))
                                     (Fin 100)) (Fin 3)))
                   (Fin 2))
           in jmin basicVariety (Fin 100)
         else
           let entropy = entropyOf (map snd genreCounts) totalListens;
               maxEntropy = (if uniqueGenres > 1 then jlog2 (Fin (real uniqueGenres)) else Fin 1);
               normalizedEntropy = jdiv entropy maxEntropy;
               artistDiversity =
                 jmul (jdiv (Fin (real uniqueArtists)) (Fin (real totalListens))) (Fin 100);
               trackDiversity =
                 jmul (jdiv (Fin (real uniqueTracks)) (Fin (real totalListens))) (Fin 100);
               varietyScore =
                 jround (jadd
                   (jadd (jmul (jmul normalizedEntropy (Fin 100)) (Fin (4 / 10)))
                         (jmul (jmin (jmul artistDiversity (Fin 5)) (Fin 100)) (Fin (3 / 10))))
                   (jmul (jmin (jmul trackDiversity (Fin 3)) (Fin 100)) (Fin (3 / 10))))
           in jmin (jmax varietyScore (Fin 0)) (Fin 100))"








text \<open>A score: an integer between 0 and 100.\<close>

definition isScore :: "jsnum \<Rightarrow> bool" where
  "isScore n = (case n of Fin x \<Rightarrow> 0 \<le> x \<and> x \<le> 100 \<and> of_int \<lfloor>x\<rfloor> = x | _ \<Rightarrow> False)"


text \<open>Example listens.\<close>

definition mkListen :: "real \<Rightarrow> string \<Rightarrow> string \<Rightarrow> string option \<Rightarrow> listen" where
  "mkListen t a tr g =
     \<lparr> timestamp = None, listened_at = Some (Fin t), artistName = Some a,
       trackName = Some tr, genres = None, normalizedGenre = None, genre = g \<rparr>"







section \<open>Batch validation (universalParser.js)\<close>

text \<open>
  A parsed listen is an object, a list of properties; reading a property that is absent
  gives \<open>undefined\<close>.
\<close>

definition getProp :: "(string \<times> jsval) list \<Rightarrow> string \<Rightarrow> jsval" where
  "getProp obj k = (case map_of obj k of None \<Rightarrow> JUndefined | Some v \<Rightarrow> v)"

definition MIN_TIMESTAMP :: real where
  "MIN_TIMESTAMP = 946684800"

definition MAX_TIMESTAMP :: real where
  "MAX_TIMESTAMP = 2147483647"

text \<open>\<open>typeof ts === 'number' && ts > MIN_TIMESTAMP && ts < MAX_TIMESTAMP\<close>\<close>

fun isValidTimestamp :: "jsval \<Rightarrow> bool" where
  "isValidTimestamp (JNum n) = (jgt n (Fin MIN_TIMESTAMP) \<and> jlt n (Fin MAX_TIMESTAMP))"
| "isValidTimestamp _ = False"

text \<open>\<open>typeof ts !== 'number' || ts < MIN_TIMESTAMP || ts > MAX_TIMESTAMP\<close>\<close>

fun isSampleInvalid :: "jsval \<Rightarrow> bool" where
  "isSampleInvalid (JNum n) = (jlt n (Fin MIN_TIMESTAMP) \<or> jgt n (Fin MAX_TIMESTAMP))"
| "isSampleInvalid _ = True"

text \<open>The numbers that pass the filter, as \<open>Math.min\<close> and \<open>Math.max\<close> receive them.\<close>

definition validTimestampsOf :: "jsval list \<Rightarrow> jsnum list" where
  "validTimestampsOf timestamps =
     List.map_filter (\<lambda>ts. case ts of
                              JNum n \<Rightarrow> if isValidTimestamp ts then Some n else None
                            | _ \<Rightarrow> None) timestamps"

text \<open>
  The result object. \<open>TooManyInvalidTimestamps\<close> is the data-quality failure with its
  \<open>debugInfo\<close>, \<open>DataSpanTooShort\<close> the insufficient-history failure. The texts of the
  messages and the \<open>toFixed\<close> formatting are left out.
\<close>

datatype validation =
    NoListensFound
  | TooManyInvalidTimestamps
      (validPercentage: jsnum) (validCount: nat) (totalCount: nat)
      (sampleInvalidTimestamp: jsval) (detectedFormat: string) (firstTimestamp: jsval)
  | DataSpanTooShort (shortSpan: jsnum)
  | IsValid
      (earliest: jsnum) (latest: jsnum) (yearSpan: jsnum)
      (totalListens: nat) (validTimestamps: nat) (statsPercentage: jsnum)

text \<open>
  \<open>validateUniversalData\<close>; the argument is \<open>None\<close> when \<open>data\<close> or \<open>data.listens\<close> is
  missing. \<open>365.25 * 24 * 60 * 60\<close> is 31557600.
\<close>

definition validateUniversalData :: "(string \<times> jsval) list list option \<Rightarrow> validation" where
  "validateUniversalData listens =
     (case listens of
        None \<Rightarrow> NoListensFound
      | Some ls \<Rightarrow>
          if length ls = 0 then NoListensFound
          else
            let timestamps = map (\<lambda>l. getProp l ''listened_at'') ls;
                validTs = validTimestampsOf timestamps;
                validPct =
                  jmul (jdiv (Fin (real (length validTs))) (Fin (real (length timestamps))))
                       (Fin 100)
            in if jlt validPct (Fin 90) then
                 TooManyInvalidTimestamps validPct (length validTs) (length timestamps)
                   (case find isSampleInvalid timestamps of None \<Rightarrow> JUndefined | Some v \<Rightarrow> v)
                   (typeof (hd timestamps)) (hd timestamps)
               else
                 let earliest = minOf validTs;
                     latest = maxOf validTs;
                     yearSpan = jdiv (jsub latest earliest) (Fin 31557600)
                 in if jlt yearSpan (Fin (8 / 100)) then DataSpanTooShort yearSpan
                    else IsValid earliest latest
                           (jdiv (jround (jmul yearSpan (Fin 10))) (Fin 10))
                           (length ls) (length validTs) validPct)"

text \<open>A listen that only carries \<open>listened_at\<close>.\<close>

definition listenAt :: "real \<Rightarrow> (string \<times> jsval) list" where
  "listenAt t = [(''listened_at'', JNum (Fin t))]"




section \<open>Format detection\<close>

datatype data_format = listenbrainz | spotify | lastfm

text \<open>
  Reading a property of a value that is neither \<open>null\<close> nor \<open>undefined\<close>: the entry of
  an object, \<open>undefined\<close> on anything else (none of the names read below is a built-in
  property of a string, a number or an array).
\<close>

fun rd :: "jsval \<Rightarrow> string \<Rightarrow> jsval" where
  "rd (JObj obj) k = getProp obj k"
| "rd _ k = JUndefined"

fun nullish :: "jsval \<Rightarrow> bool" where
  "nullish JUndefined = True"
| "nullish JNull = True"
| "nullish _ = False"

text \<open>\<open>toLowerCase\<close> on ASCII letters, and \<open>String.prototype.includes\<close>.\<close>

definition lowerChar :: "char \<Rightarrow> char" where
  "lowerChar c =
     (if 65 \<le> (of_char c :: nat) \<and> (of_char c :: nat) \<le> 90
      then char_of ((of_char c :: nat) + 32) else c)"

definition toLowerCase :: "string \<Rightarrow> string" where
  "toLowerCase s = map lowerChar s"

fun includesStr :: "string \<Rightarrow> string \<Rightarrow> bool" where
  "includesStr [] sub = (sub = [])"
| "includesStr (c # cs) sub = (take (length sub) (c # cs) = sub \<or> includesStr cs sub)"

text \<open>The file-name fallback of \<open>detectDataFormat\<close> in universalParser.js.\<close>

definition byFileName :: "string \<Rightarrow> js_error + data_format" where
  "byFileName fileName =
     (let lowerFileName = toLowerCase fileName
      in if includesStr lowerFileName ''spotify'' \<or> includesStr lowerFileName ''streaming_history''
         then Inr spotify
         else if includesStr lowerFileName ''listenbrainz'' then Inr listenbrainz
         else if includesStr lowerFileName ''lastfm'' \<or> includesStr lowerFileName ''last.fm''
         then Inr lastfm
         else Inl (Error ''Unknown data format. Please upload ListenBrainz or Spotify extended streaming history JSON files.''))"

text \<open>\<open>detectDataFormat\<close> of universalParser.js.\<close>

definition detectDataFormat :: "jsval \<Rightarrow> string \<Rightarrow> js_error + data_format" where
  "detectDataFormat data fileName =
     (if \<not> truthy data then Inl (Error ''No data provided'')
      else
        let dataArray = (case data of JArr xs \<Rightarrow> xs | _ \<Rightarrow> [data])
        in case dataArray of
             [] \<Rightarrow> Inl (Error ''Data array is empty'')
           | firstItem # _ \<Rightarrow>
               if nullish firstItem then Inl TypeError
               else if truthy (rd firstItem ''listened_at'') \<and> truthy (rd firstItem ''track_metadata'')
               then Inr listenbrainz
               else if truthy (rd firstItem ''ts'')
                       \<and> (truthy (rd firstItem ''master_metadata_track_name'')
                            \<or> truthy (rd firstItem ''spotify_track_uri''))
               then Inr spotify
               else if truthy (rd (rd firstItem ''date'') ''uts'') \<and> truthy (rd firstItem ''artist'')
               then Inr lastfm
               else byFileName fileName)"

text \<open>
  \<open>detectDataFormat\<close> of the import module (the source file that defines
  \<open>parseImportedData\<close>). Its first statement logs \<open>data.payload\<close>, which raises TypeError on
  \<open>null\<close> and \<open>undefined\<close>. The message of the last error is cut to its first sentence.
\<close>

definition detectDataFormat_import :: "jsval \<Rightarrow> string \<Rightarrow> js_error + data_format" where
  "detectDataFormat_import data fileName =
     (if nullish data then Inl TypeError
      else
        let arrayVerdict =
              (case data of
                 JArr (first # _) \<Rightarrow>
                   if nullish first then Some (Inl TypeError)
                   else if truthy (rd first ''listened_at'') \<and> truthy (rd first ''track_metadata'')
                   then Some (Inr listenbrainz)
                   else if truthy (rd first ''ts'')
                           \<and> (truthy (rd first ''master_metadata_track_name'')
                                \<or> truthy (rd first ''episode_name''))
                   then Some (Inr spotify)
                   else None
               | _ \<Rightarrow> None)
        in case arrayVerdict of
             Some v \<Rightarrow> v
           | None \<Rightarrow>
               if truthy (rd data ''payload'')
                  \<and> (case rd (rd data ''payload'') ''listens'' of JArr _ \<Rightarrow> True | _ \<Rightarrow> False)
               then Inr listenbrainz
               else
                 let lowerFileName = toLowerCase fileName
                 in if includesStr lowerFileName ''spotify'' \<or> includesStr lowerFileName ''streaming''
                    then Inr spotify
                    else Inl (Error ''Unable to detect file format.''))"

text \<open>A ListenBrainz API envelope around the given listens.\<close>

definition envelope :: "jsval list \<Rightarrow> jsval" where
  "envelope ls = JObj [(''payload'', JObj [(''count'', JNum (Fin (real (length ls)))), (''listens'', JArr ls)])]"

definition exampleApiListen :: jsval where
  "exampleApiListen =
     JObj [(''listened_at'', JNum (Fin 1609459200)),
           (''track_metadata'', JObj [(''track_name'', JStr ''Song''), (''artist_name'', JStr ''Artist'')])]"

section \<open>Timestamp conversion (import module)\<close>






section \<open>The Spotify parsers\<close>

text \<open>One record of a Spotify export; an absent field is \<open>None\<close> (\<open>undefined\<close> for \<open>ts\<close>).\<close>

record spotify_item =
  ts :: jsval
  master_metadata_track_name :: "string option"
  master_metadata_album_artist_name :: "string option"
  master_metadata_album_album_name :: "string option"
  spotify_track_uri :: "string option"
  ms_played :: "real option"

















section \<open>Paginated fetch (listenbrainz.js)\<close>
















section \<open>Import run (useDataParser.js)\<close>

text \<open>A file of the run: its name and its size in bytes.\<close>

record import_file =
  f_name :: string
  f_size :: nat

datatype file_type = AutoType | ListenBrainzType | SpotifyType | OtherType string

text \<open>
  The result object of a parser (\<open>success\<close>, \<open>listens\<close>), and of the merge (\<open>success\<close>,
  \<open>data\<close>, \<open>error\<close>, \<open>mergeInfo.duplicates\<close>).
\<close>

record 'l parse_out =
  po_success :: bool
  po_listens :: "'l list"

record 'l merge_out =
  mo_success :: bool
  mo_data :: "'l list"
  mo_error :: "string option"
  mo_duplicates :: nat

text \<open>
  The functions \<open>parseFiles\<close> calls: the modules it imports, reading a file, \<open>JSON.parse\<close>
  and the sort of the accumulated listens. Each may raise (\<open>Inl\<close>). A parser may return
  nothing (\<open>None\<close>). \<open>'d\<close> is the type of parsed file data, \<open>'l\<close> of a listen.
\<close>

record ('d, 'l) collaborators =
  isJSONLFile :: "string \<Rightarrow> bool"
  parseJSONL :: "import_file \<Rightarrow> js_error + 'd"
  fileText :: "import_file \<Rightarrow> js_error + string"
  jsonParse :: "string \<Rightarrow> js_error + 'd"
  validateListenBrainzJSON :: "'d \<Rightarrow> js_error + bool"
  parseListenBrainzJSON :: "'d \<Rightarrow> js_error + 'l parse_out option"
  validateSpotifyJSON :: "'d \<Rightarrow> js_error + bool"
  parseSpotifyJSON :: "'d \<Rightarrow> js_error + 'l parse_out option"
  parseUniversalData :: "string \<Rightarrow> string \<Rightarrow> js_error + 'l parse_out option"
  sortListens :: "'l list \<Rightarrow> 'l list"
  cleanGenreData :: "'l list \<Rightarrow> js_error + 'l list"
  mergeListeningData :: "'l list \<Rightarrow> js_error + 'l merge_out"
  validateListeningData :: "'l list \<Rightarrow> js_error + bool \<times> string"

text \<open>Sequencing of calls that may raise.\<close>

definition thenE :: "js_error + 'a \<Rightarrow> ('a \<Rightarrow> js_error + 'b) \<Rightarrow> js_error + 'b" where
  "thenE m f = (case m of Inl e \<Rightarrow> Inl e | Inr x \<Rightarrow> f x)"

text \<open>
  The body of the inner \<open>try\<close> up to the test of \<open>parseResult\<close>: it raises, it leaves the
  iteration with \<open>continue\<close>, or it reaches the test with a \<open>parseResult\<close>.
\<close>

datatype 'l unit_outcome = SkipFile | Reached "'l parse_out option"

definition validated ::
  "('d \<Rightarrow> js_error + bool) \<Rightarrow> ('d \<Rightarrow> js_error + 'l parse_out option) \<Rightarrow> 'd
     \<Rightarrow> js_error + 'l parse_out option" where
  "validated validate parse fileData =
     thenE (validate fileData) (\<lambda>valid. if valid then parse fileData else Inr None)"

definition readUnit ::
  "('d, 'l) collaborators \<Rightarrow> file_type \<Rightarrow> import_file \<Rightarrow> js_error + 'l unit_outcome" where
  "readUnit c fileType file =
     (if isJSONLFile c (f_name file) then
        thenE (parseJSONL c file) (\<lambda>fileData.
        thenE (if fileType = ListenBrainzType \<or> fileType = AutoType
               then validated (validateListenBrainzJSON c) (parseListenBrainzJSON c) fileData
               else Inr None) (\<lambda>r1.
        thenE (if r1 = None \<and> (fileType = SpotifyType \<or> fileType = AutoType)
               then validated (validateSpotifyJSON c) (parseSpotifyJSON c) fileData
               else Inr r1) (\<lambda>r2.
        if r2 = None then Inl (Error ''JSONL file format not recognized'')
        else Inr (Reached r2))))
      else
        thenE (fileText c file) (\<lambda>fileContent.
        case fileType of
          AutoType \<Rightarrow>
            thenE (parseUniversalData c fileContent (f_name file)) (\<lambda>r. Inr (Reached r))
        | ListenBrainzType \<Rightarrow>
            thenE (jsonParse c fileContent) (\<lambda>fileData.
            thenE (validateListenBrainzJSON c fileData) (\<lambda>valid.
            if \<not> valid then Inr SkipFile
            else thenE (parseListenBrainzJSON c fileData) (\<lambda>r. Inr (Reached r))))
        | SpotifyType \<Rightarrow>
            thenE (jsonParse c fileContent) (\<lambda>fileData.
            thenE (validateSpotifyJSON c fileData) (\<lambda>valid.
            if \<not> valid then Inr SkipFile
            else thenE (parseSpotifyJSON c fileData) (\<lambda>r. Inr (Reached r))))
        | OtherType _ \<Rightarrow> Inl (Error ''Unknown file type'')))"

text \<open>
  One iteration of the loop over the files: the listens it pushes onto \<open>allListens\<close>.
  An error raised inside is caught and logged, and the loop continues.
\<close>

definition unitListens :: "('d, 'l) collaborators \<Rightarrow> file_type \<Rightarrow> import_file \<Rightarrow> 'l list" where
  "unitListens c fileType file =
     (case readUnit c fileType file of
        Inl e \<Rightarrow> []
      | Inr SkipFile \<Rightarrow> []
      | Inr (Reached None) \<Rightarrow> []
      | Inr (Reached (Some parseResult)) \<Rightarrow>
          if \<not> po_success parseResult then [] else po_listens parseResult)"











section \<open>Theorems\<close>

lemma numberOr50_not_NaN: "\<not> isNaN (numberOr50 conv x)"
  by (cases "toNumber conv x") (simp_all add: numberOr50_def)

lemma numberOr50_nonzero: "numberOr50 conv x \<noteq> Fin 0" "Fin 0 \<noteq> numberOr50 conv x"
  by (cases "toNumber conv x"; simp add: numberOr50_def)+

lemma numberOr50_zero: "numberOr50 conv (JNum (Fin 0)) = Fin 50"
  by (simp add: numberOr50_def)

lemma validateFingerprintData_Some:
  "validateFingerprintData conv (Some f) =
     Some \<lparr> consistency = numberOr50 conv (r_consistency f),
            discovery = numberOr50 conv (r_discovery f),
            variety = numberOr50 conv (r_variety f),
            replayRate = numberOr50 conv (r_replayRate f),
            exploration = numberOr50 conv (r_exploration f) \<rparr>"
  by (simp add: validateFingerprintData_def fingerprintValues_def numberOr50_not_NaN)

text \<open>
  Claim C10. For every fingerprint object, \<open>validateFingerprintData\<close> returns a validated
  fingerprint (never \<open>null\<close>); an axis whose value is the number 0 comes back as 50, and no
  axis of the validated fingerprint is ever 0.
\<close>

theorem validateFingerprintData_zero_becomes_50:
  "\<exists>v. validateFingerprintData conv (Some f) = Some v
     \<and> (r_consistency f = JNum (Fin 0) \<longrightarrow> consistency v = Fin 50)
     \<and> (r_discovery f = JNum (Fin 0) \<longrightarrow> discovery v = Fin 50)
     \<and> (r_variety f = JNum (Fin 0) \<longrightarrow> variety v = Fin 50)
     \<and> (r_replayRate f = JNum (Fin 0) \<longrightarrow> replayRate v = Fin 50)
     \<and> (r_exploration f = JNum (Fin 0) \<longrightarrow> exploration v = Fin 50)
     \<and> Fin 0 \<notin> set (fingerprintValues v)"
  by (simp add: validateFingerprintData_Some fingerprintValues_def numberOr50_zero
      numberOr50_nonzero)

theorem validateFingerprintData_zero_becomes_50_witness:
  "validateFingerprintData (\<lambda>_. NaN)
     (Some \<lparr> r_consistency = JNum (Fin 0), r_discovery = JNum (Fin 72),
             r_variety = JUndefined, r_replayRate = JNum (Fin 0),
             r_exploration = JNum (Fin 100) \<rparr>)
   = Some \<lparr> consistency = Fin 50, discovery = Fin 72, variety = Fin 50,
            replayRate = Fin 50, exploration = Fin 100 \<rparr>"
  using validateFingerprintData_zero_becomes_50
    [of "\<lambda>_. NaN" "\<lparr> r_consistency = JNum (Fin 0), r_discovery = JNum (Fin 72),
             r_variety = JUndefined, r_replayRate = JNum (Fin 0),
             r_exploration = JNum (Fin 100) \<rparr>"]
  by (simp add: validateFingerprintData_Some numberOr50_def)


subsection \<open>The five scores\<close>





lemma isScore_isFin: "isScore n \<Longrightarrow> isFin n"
  by (cases n) (simp_all add: isScore_def)










































subsection \<open>Variety and genre diversity\<close>
































text \<open>A genre called \<open>constructor\<close> makes the count a string and the Variety NaN.\<close>

lemma calculateVariety_inherited_name:
  "calculateVariety [mkListen 1609459200 ''A'' ''T'' (Some ''constructor'')] = NaN"
  by (simp add: calculateVariety_def mkListen_def uniqueArtistsOf_def uniqueTracksOf_def
      setSize_def truthyS_def trackKey_def tmpl_def genreCountsOf_def genreOf_def entropyOf_def
      jsub_def inheritedFunctionNames_def)

subsection \<open>Batch validation\<close>





text \<open>
  Claim C2. The filter counts a timestamp as valid only strictly inside the interval, while
  the search for the sample treats the two bounds as not offending. A batch of one listen
  at 946684800 and one at 2147483647 has no valid timestamp: validation fails with
  \<open>TooManyInvalidTimestamps\<close> at 0%, and the sample is \<open>undefined\<close>.
\<close>

theorem validate_boundary_timestamps_rejected:
  "validateUniversalData (Some [listenAt 946684800, listenAt 2147483647])
     = TooManyInvalidTimestamps (Fin 0) 0 2 JUndefined ''number'' (JNum (Fin 946684800))"
  by (simp add: validateUniversalData_def listenAt_def getProp_def validTimestampsOf_def
      List.map_filter_def MIN_TIMESTAMP_def MAX_TIMESTAMP_def jgt_def)


subsection \<open>Format detection\<close>

lemma getProp_filter:
  "k \<noteq> p \<Longrightarrow> getProp (filter (\<lambda>kv. fst kv \<noteq> p) obj) k = getProp obj k"
  by (induction obj) (auto simp: getProp_def)

lemma detectDataFormat_object:
  "detectDataFormat (JObj obj) fileName =
     (if truthy (getProp obj ''listened_at'') \<and> truthy (getProp obj ''track_metadata'')
      then Inr listenbrainz
      else if truthy (getProp obj ''ts'')
              \<and> (truthy (getProp obj ''master_metadata_track_name'')
                   \<or> truthy (getProp obj ''spotify_track_uri''))
      then Inr spotify
      else if truthy (rd (getProp obj ''date'') ''uts'') \<and> truthy (getProp obj ''artist'')
      then Inr lastfm
      else byFileName fileName)"
  by (auto simp: detectDataFormat_def)

text \<open>
  Claim C5, as amended. The detector of the import module returns ListenBrainz for every
  object whose \<open>payload\<close> is an object with a \<open>listens\<close> array, whatever the file name. The
  detector of universalParser.js never reads \<open>payload\<close>: its verdict on an object is the
  verdict on the same object without that property, and an object that has only a
  \<open>payload\<close> is classified by the file name alone.
\<close>

theorem envelope_detection:
  "(getProp obj ''payload'' = JObj pl \<and> getProp pl ''listens'' = JArr ls
      \<longrightarrow> detectDataFormat_import (JObj obj) fileName = Inr listenbrainz)
   \<and> detectDataFormat (JObj obj) fileName
       = detectDataFormat (JObj (filter (\<lambda>kv. fst kv \<noteq> ''payload'') obj)) fileName
   \<and> detectDataFormat (JObj [(''payload'', p)]) fileName = byFileName fileName"
proof -
  have a: "detectDataFormat_import (JObj obj) fileName = Inr listenbrainz"
    if "getProp obj ''payload'' = JObj pl" "getProp pl ''listens'' = JArr ls"
    using that by (simp add: detectDataFormat_import_def)
  have b: "detectDataFormat (JObj obj) fileName
       = detectDataFormat (JObj (filter (\<lambda>kv. fst kv \<noteq> ''payload'') obj)) fileName"
    unfolding detectDataFormat_object by (simp only: getProp_filter list.inject char.inject simp_thms)
  have c: "detectDataFormat (JObj [(''payload'', p)]) fileName = byFileName fileName"
    unfolding detectDataFormat_object by (simp add: getProp_def)
  from a b c show ?thesis by blast
qed

theorem envelope_detection_witness:
  "detectDataFormat_import (envelope [exampleApiListen]) ''export.json'' = Inr listenbrainz
   \<and> detectDataFormat (envelope [exampleApiListen]) ''export.json'' = byFileName ''export.json''"
  using envelope_detection
    [of "[(''payload'', JObj [(''count'', JNum (Fin 1)), (''listens'', JArr [exampleApiListen])])]"
        "[(''count'', JNum (Fin 1)), (''listens'', JArr [exampleApiListen])]"
        "[exampleApiListen]" "''export.json''"
        "JObj [(''count'', JNum (Fin 1)), (''listens'', JArr [exampleApiListen])]"]
  by (simp add: envelope_def getProp_def detectDataFormat_object)

text \<open>
  The detector of universalParser.js on an envelope: no format when the file name gives
  no hint, and Spotify when the file name mentions it.
\<close>

theorem envelope_not_detected_counterexample:
  "detectDataFormat (envelope [exampleApiListen]) ''export.json''
     = Inl (Error ''Unknown data format. Please upload ListenBrainz or Spotify extended streaming history JSON files.'')
   \<and> detectDataFormat (envelope [exampleApiListen]) ''My_Spotify.json'' = Inr spotify"
  by code_simp


subsection \<open>Timestamp conversion\<close>







subsection \<open>The Spotify parsers\<close>











subsection \<open>Paginated fetch\<close>









subsection \<open>Import run\<close>





lemma unitListens_unsuccessful:
  "readUnit c fileType file = Inr (Reached (Some r)) \<Longrightarrow> \<not> po_success r \<Longrightarrow>
   unitListens c fileType file = []"
  by (simp add: unitListens_def)








end
